theory Spec2Isabelle
  imports Main "HOL-Library.Multiset"
begin

section \<open>Data model of \<open>ts/input/tex/Configuration.ts\<close>\<close>

text \<open>
  JavaScript values that the configuration code stores and inspects without looking
  inside: \<open>undefined\<close>, \<open>null\<close>, numbers (integers here), function and class objects
  (named by a string that identifies the object) and arrays. A \<open>Processor\<close> of the
  source is \<open>Function | [Function, number]\<close>, so a hook is one of these values.
\<close>

datatype jsval = Undefined | Null | Num int | Fn string | Arr "jsval list"

text \<open>The errors the code can raise: property access on \<open>undefined\<close>, calling a non-function.\<close>

datatype error = TypeError

text \<open>
  Modelled from the spec: the type \<open>HandlerType\<close> is declared in \<open>MapHandler.ts\<close>; the four
  categories are the ones the \<open>Configuration\<close> constructor lists.
\<close>

datatype HandlerType = character | delimiter | macro | environment

type_synonym HandlerConfig = "HandlerType \<rightharpoonup> string list"
type_synonym FallbackConfig = "HandlerType \<rightharpoonup> jsval"
type_synonym StackItemConfig = "string \<rightharpoonup> jsval"
type_synonym TagsConfig = "string \<rightharpoonup> jsval"
type_synonym OptionList = "string \<rightharpoonup> jsval"
type_synonym NodeConfig = "string \<rightharpoonup> jsval"
type_synonym Processor = jsval
type_synonym ProcessorList = "jsval list"

text \<open>
  The \<open>config\<close> argument of \<open>Configuration.create\<close>: every property is optional
  (\<open>None\<close>, or \<open>Undefined\<close> for the two hooks, when the caller leaves it out).
\<close>

record ConfigParams =
  p_handler :: "HandlerConfig option"
  p_fallback :: "FallbackConfig option"
  p_items :: "StackItemConfig option"
  p_tags :: "TagsConfig option"
  p_options :: "OptionList option"
  p_nodes :: "NodeConfig option"
  p_preprocessors :: "ProcessorList option"
  p_postprocessors :: "ProcessorList option"
  p_init :: Processor
  p_config :: Processor
  p_priority :: "int option"

text \<open>The class \<open>Configuration\<close>: the fields its private constructor declares.\<close>

record Configuration =
  name :: string
  handler :: HandlerConfig
  fallback :: FallbackConfig
  items :: StackItemConfig
  tags :: TagsConfig
  options :: OptionList
  nodes :: NodeConfig
  preprocessors :: ProcessorList
  postprocessors :: ProcessorList
  init :: Processor
  config :: Processor
  priority :: int

section \<open>JavaScript primitives used by the code\<close>

text \<open>Truthiness, as \<open>if (v)\<close> and \<open>v || d\<close> test it.\<close>

fun truthy :: "jsval \<Rightarrow> bool" where
  "truthy Undefined = False"
| "truthy Null = False"
| "truthy (Num n) = (n \<noteq> 0)"
| "truthy (Fn f) = True"
| "truthy (Arr xs) = True"

fun isArray :: "jsval \<Rightarrow> bool" where
  "isArray (Arr xs) = True"
| "isArray v = False"

text \<open>\<open>a || d\<close> on values.\<close>

definition js_or :: "jsval \<Rightarrow> jsval \<Rightarrow> jsval" where
  "js_or a d = (if truthy a then a else d)"

text \<open>\<open>a || d\<close> where \<open>a\<close> is an optional object or array: objects are always truthy.\<close>

fun obj_or :: "'a option \<Rightarrow> 'a \<Rightarrow> 'a" where
  "obj_or None d = d"
| "obj_or (Some a) d = a"

text \<open>\<open>a || d\<close> where \<open>a\<close> is an optional number: \<open>undefined\<close> and \<open>0\<close> are falsy.\<close>

fun num_or :: "int option \<Rightarrow> int \<Rightarrow> int" where
  "num_or None d = d"
| "num_or (Some n) d = (if n \<noteq> 0 then n else d)"

text \<open>
  \<open>v[i]\<close>: an element of an array, \<open>undefined\<close> past its end and on numbers and
  functions; a \<open>TypeError\<close> on \<open>null\<close> and \<open>undefined\<close>.
\<close>

fun js_index :: "jsval \<Rightarrow> nat \<Rightarrow> error + jsval" where
  "js_index Undefined i = Inl TypeError"
| "js_index Null i = Inl TypeError"
| "js_index (Arr xs) i = Inr (if i < length xs then xs ! i else Undefined)"
| "js_index v i = Inr Undefined"

text \<open>
  \<open>Object.assign(target, source)\<close> on a target that exists: the source's properties
  overwrite the target's.
\<close>

definition Object_assign :: "('k \<rightharpoonup> 'v) \<Rightarrow> ('k \<rightharpoonup> 'v) \<Rightarrow> ('k \<rightharpoonup> 'v)" where
  "Object_assign target source = target ++ source"

section \<open>\<open>Configuration\<close> and \<open>ConfigurationHandler\<close>\<close>

text \<open>
  The private constructor of \<open>Configuration\<close>: both hooks are paired with the default
  priority under the condition \<open>this.init || !Array.isArray(this.init)\<close>, and the
  handler object is laid over the four empty categories.
\<close>

definition Configuration_constructor ::
  "string \<Rightarrow> HandlerConfig \<Rightarrow> FallbackConfig \<Rightarrow> StackItemConfig \<Rightarrow> TagsConfig \<Rightarrow>
   OptionList \<Rightarrow> NodeConfig \<Rightarrow> ProcessorList \<Rightarrow> ProcessorList \<Rightarrow> Processor \<Rightarrow> Processor \<Rightarrow>
   int \<Rightarrow> Configuration" where
  "Configuration_constructor nm h fb its tgs opts nds pre post ini cfg prio =
     \<lparr> name = nm,
       handler = Object_assign
         [character \<mapsto> [], delimiter \<mapsto> [], macro \<mapsto> [], environment \<mapsto> []] h,
       fallback = fb, items = its, tags = tgs, options = opts, nodes = nds,
       preprocessors = pre, postprocessors = post,
       init = (if truthy ini \<or> \<not> isArray ini then Arr [ini, Num prio] else ini),
       config = (if truthy cfg \<or> \<not> isArray cfg then Arr [cfg, Num prio] else cfg),
       priority = prio \<rparr>"

text \<open>The registry \<open>ConfigurationHandler\<close>: the module-level \<open>Map\<close> is passed explicitly.\<close>

type_synonym registry = "string \<rightharpoonup> Configuration"

definition ConfigurationHandler_set :: "string \<Rightarrow> Configuration \<Rightarrow> registry \<Rightarrow> registry" where
  "ConfigurationHandler_set nm m maps = maps(nm \<mapsto> m)"

definition ConfigurationHandler_get :: "string \<Rightarrow> registry \<Rightarrow> Configuration option" where
  "ConfigurationHandler_get nm maps = maps nm"

text \<open>
  \<open>Configuration.create\<close>: builds the entry with the defaults \<open>|| {}\<close>, \<open>|| []\<close>,
  \<open>|| null\<close> and \<open>|| 5\<close>, stores it in the registry under its name and returns it.
\<close>

definition Configuration_create ::
  "string \<Rightarrow> ConfigParams \<Rightarrow> registry \<Rightarrow> Configuration \<times> registry" where
  "Configuration_create nm c maps =
     (let configuration = Configuration_constructor nm
            (obj_or (p_handler c) Map.empty)
            (obj_or (p_fallback c) Map.empty)
            (obj_or (p_items c) Map.empty)
            (obj_or (p_tags c) Map.empty)
            (obj_or (p_options c) Map.empty)
            (obj_or (p_nodes c) Map.empty)
            (obj_or (p_preprocessors c) [])
            (obj_or (p_postprocessors c) [])
            (js_or (p_init c) Null)
            (js_or (p_config c) Null)
            (num_or (p_priority c) 5)
      in (configuration, ConfigurationHandler_set nm configuration maps))"

text \<open>The call \<open>Configuration.create(name)\<close>, whose \<open>config\<close> argument defaults to \<open>{}\<close>.\<close>

definition no_params :: ConfigParams where
  "no_params = \<lparr> p_handler = None, p_fallback = None, p_items = None, p_tags = None,
     p_options = None, p_nodes = None, p_preprocessors = None, p_postprocessors = None,
     p_init = Undefined, p_config = Undefined, p_priority = None \<rparr>"

section \<open>\<open>PrioritizedList\<close> and \<open>FunctionList\<close>\<close>

text \<open>
  Modelled from the spec: \<open>PrioritizedList.add\<close> lives in \<open>util/PrioritizedList.ts\<close>. It
  inserts the item keeping ascending priority order, and an item inserted earlier stays
  before a later one of the same priority: the new item goes before the first item whose
  priority is strictly greater. The comparison of priorities is a parameter, since the
  code below also passes priorities that are not numbers.
\<close>

type_synonym ('a, 'p) PrioritizedList = "('a \<times> 'p) list"

fun PrioritizedList_add ::
  "('p \<Rightarrow> 'p \<Rightarrow> bool) \<Rightarrow> 'a \<Rightarrow> 'p \<Rightarrow> ('a, 'p) PrioritizedList \<Rightarrow> ('a, 'p) PrioritizedList" where
  "PrioritizedList_add lt item prio [] = [(item, prio)]"
| "PrioritizedList_add lt item prio ((a, q) # rest) =
     (if lt prio q then (item, prio) # (a, q) # rest
      else (a, q) # PrioritizedList_add lt item prio rest)"

text \<open>
  Modelled from the spec: a \<open>FunctionList\<close> (\<open>util/FunctionList.ts\<close>) is a prioritized list
  of callables. Its items and priorities are the JavaScript values the caller hands over.
\<close>

type_synonym FunctionList = "(jsval, jsval) PrioritizedList"

section \<open>\<open>ParserConfiguration\<close>\<close>

text \<open>
  The class \<open>ParserConfiguration\<close>. The three lists have field initialisers; the eight
  public fields are declared without one, so each is \<open>undefined\<close> (\<open>None\<close>) until
  something assigns it.
\<close>

record ParserConfiguration =
  initMethod :: FunctionList
  configMethod :: FunctionList
  configurations :: "(Configuration, int) PrioritizedList"
  pc_handler :: "HandlerConfig option"
  pc_fallback :: "FallbackConfig option"
  pc_items :: "StackItemConfig option"
  pc_tags :: "TagsConfig option"
  pc_options :: "OptionList option"
  pc_nodes :: "NodeConfig option"
  pc_preprocessors :: "ProcessorList option"
  pc_postprocessors :: "ProcessorList option"

definition new_ParserConfiguration :: ParserConfiguration where
  "new_ParserConfiguration =
     \<lparr> initMethod = [], configMethod = [], configurations = [],
       pc_handler = None, pc_fallback = None, pc_items = None, pc_tags = None,
       pc_options = None, pc_nodes = None, pc_preprocessors = None,
       pc_postprocessors = None \<rparr>"

text \<open>Sequencing of steps that may throw.\<close>

fun and_then :: "error + 'a \<Rightarrow> ('a \<Rightarrow> error + 'b) \<Rightarrow> error + 'b" where
  "and_then (Inl e) f = Inl e"
| "and_then (Inr x) f = f x"

subsection \<open>\<open>append\<close>\<close>

text \<open>
  \<open>Object.keys(config.handler)\<close>: the categories the entry's handler object has, in the
  order the constructor's \<open>Object.assign\<close> target lists them.
\<close>

definition Object_keys :: "HandlerConfig \<Rightarrow> HandlerType list" where
  "Object_keys h = filter (\<lambda>k. h k \<noteq> None) [character, delimiter, macro, environment]"

text \<open>
  The inner loop \<open>for (const map of config.handler[key]) this.handler[key].unshift(map)\<close>:
  each name is put at the front of the list; \<open>this.handler\<close> or \<open>this.handler[key]\<close> being
  \<open>undefined\<close> throws.
\<close>

fun unshift_all :: "string list \<Rightarrow> HandlerType \<Rightarrow> HandlerConfig option \<Rightarrow> error + HandlerConfig option" where
  "unshift_all [] key h = Inr h"
| "unshift_all (m # ms) key None = Inl TypeError"
| "unshift_all (m # ms) key (Some h) =
     (case h key of
        None \<Rightarrow> Inl TypeError
      | Some xs \<Rightarrow> unshift_all ms key (Some (h(key \<mapsto> m # xs))))"

text \<open>The outer loop \<open>for (const key of handlers)\<close>; iterating an absent list throws.\<close>

fun append_handlers ::
  "HandlerType list \<Rightarrow> HandlerConfig \<Rightarrow> HandlerConfig option \<Rightarrow> error + HandlerConfig option" where
  "append_handlers [] ch h = Inr h"
| "append_handlers (key # keys) ch h =
     (case ch key of
        None \<Rightarrow> Inl TypeError
      | Some ms \<Rightarrow> and_then (unshift_all ms key h) (append_handlers keys ch))"

text \<open>\<open>Object.assign(this.f, config.f)\<close> on a field that may be \<open>undefined\<close>, which throws.\<close>

fun assign_into :: "('k \<rightharpoonup> 'v) option \<Rightarrow> ('k \<rightharpoonup> 'v) \<Rightarrow> error + ('k \<rightharpoonup> 'v) option" where
  "assign_into None source = Inl TypeError"
| "assign_into (Some target) source = Inr (Some (Object_assign target source))"

text \<open>
  Modelled from the spec: \<open>defaultOptions\<close> lives in \<open>util/Options.ts\<close>. An option name
  already in the tree is left untouched and new names are added; there must be a tree to
  merge into.
\<close>

definition merge_defaults :: "OptionList \<Rightarrow> OptionList \<Rightarrow> OptionList" where
  "merge_defaults opts defs = defs ++ opts"

fun defaultOptions :: "OptionList option \<Rightarrow> OptionList \<Rightarrow> error + OptionList option" where
  "defaultOptions None defs = Inl TypeError"
| "defaultOptions (Some opts) defs = Inr (Some (merge_defaults opts defs))"

text \<open>
  The loops \<open>for (let pre of config.preprocessors) this.preprocessors.push(pre)\<close>: each
  processor is put at the end; pushing onto \<open>undefined\<close> throws.
\<close>

fun push_all :: "jsval list \<Rightarrow> ProcessorList option \<Rightarrow> error + ProcessorList option" where
  "push_all [] t = Inr t"
| "push_all (x # xs) None = Inl TypeError"
| "push_all (x # xs) (Some ys) = push_all xs (Some (ys @ [x]))"

text \<open>
  \<open>if (hook) { list.add(hook[i], hook[j]) }\<close>: the source calls it with \<open>(0, 0)\<close> for
  the init hook and with \<open>(0, 1)\<close> for the config hook.
\<close>

definition add_hook ::
  "(jsval \<Rightarrow> jsval \<Rightarrow> bool) \<Rightarrow> jsval \<Rightarrow> nat \<Rightarrow> nat \<Rightarrow> FunctionList \<Rightarrow> error + FunctionList" where
  "add_hook lt hook i j fl =
     (if truthy hook
      then and_then (js_index hook i) (\<lambda>item.
           and_then (js_index hook j) (\<lambda>prio.
           Inr (PrioritizedList_add lt item prio fl)))
      else Inr fl)"

text \<open>
  \<open>ParserConfiguration.append\<close>, statement by statement. \<open>lt\<close> is the comparison the
  function lists use on priorities.
\<close>

definition append ::
  "(jsval \<Rightarrow> jsval \<Rightarrow> bool) \<Rightarrow> Configuration \<Rightarrow> ParserConfiguration \<Rightarrow> error + ParserConfiguration" where
  "append lt cf this =
     and_then (append_handlers (Object_keys (handler cf)) (handler cf) (pc_handler this)) (\<lambda>h.
     and_then (assign_into (pc_fallback this) (fallback cf)) (\<lambda>fb.
     and_then (assign_into (pc_items this) (items cf)) (\<lambda>its.
     and_then (assign_into (pc_tags this) (tags cf)) (\<lambda>tgs.
     and_then (defaultOptions (pc_options this) (options cf)) (\<lambda>opts.
     and_then (assign_into (pc_nodes this) (nodes cf)) (\<lambda>nds.
     and_then (push_all (preprocessors cf) (pc_preprocessors this)) (\<lambda>pre.
     and_then (push_all (postprocessors cf) (pc_postprocessors this)) (\<lambda>post.
     and_then (add_hook lt (init cf) 0 0 (initMethod this)) (\<lambda>im.
     and_then (add_hook lt (config cf) 0 1 (configMethod this)) (\<lambda>cm.
     Inr (this\<lparr> initMethod := im, configMethod := cm, pc_handler := h, pc_fallback := fb,
                pc_items := its, pc_tags := tgs, pc_options := opts, pc_nodes := nds,
                pc_preprocessors := pre, pc_postprocessors := post \<rparr>)))))))))))"

subsection \<open>\<open>register\<close>\<close>

text \<open>
  Calling a value: a function object is invoked, which the model records together with
  the arguments it receives (the parser configuration, the jax); what the callable itself
  does is outside this file. Calling anything else throws.
\<close>

datatype arg = ThisConfiguration | TheJax

type_synonym call = "jsval \<times> arg list"

fun js_call :: "jsval \<Rightarrow> arg list \<Rightarrow> call list \<Rightarrow> error + call list" where
  "js_call (Fn f) args log = Inr (log @ [(Fn f, args)])"
| "js_call v args log = Inl TypeError"

text \<open>
  Modelled from the spec: the part of the host engine that \<open>register\<close> writes to, the
  \<open>parseOptions\<close> of the \<open>TeX\<close> jax (\<open>tex.ts\<close>, \<open>ParseOptions.ts\<close>): the lookup structure
  derived from the handler lists and fallbacks, the creators of the node factory, the
  classes of the item factory and the option tree.
\<close>

record ParseOptions =
  handlers :: "HandlerConfig option \<times> FallbackConfig option"
  nodeCreators :: NodeConfig
  itemClasses :: StackItemConfig
  parser_options :: OptionList

text \<open>
  Modelled from the spec: \<open>new SubHandlers(this)\<close> (\<open>MapHandler.ts\<close>) rebuilds the lookup
  structure from the configuration's current handler lists and fallbacks.
\<close>

definition SubHandlers :: "ParserConfiguration \<Rightarrow> HandlerConfig option \<times> FallbackConfig option" where
  "SubHandlers this = (pc_handler this, pc_fallback this)"

text \<open>
  Modelled from the spec: \<open>userOptions\<close> (\<open>util/Options.ts\<close>) lays the user's options over
  the tree.
\<close>

definition userOptions :: "OptionList \<Rightarrow> OptionList \<Rightarrow> OptionList" where
  "userOptions opts user = opts ++ user"

text \<open>
  \<open>ParserConfiguration.register\<close>, statement by statement: \<open>append\<close>, the call
  \<open>config.init(this)\<close>, the updates of the parse options (the creators and the item
  classes of the entry overwrite those of the same kind), the call
  \<open>config.config(this, jax)\<close>.
\<close>

definition register ::
  "(jsval \<Rightarrow> jsval \<Rightarrow> bool) \<Rightarrow> Configuration \<Rightarrow> ParseOptions \<Rightarrow> OptionList \<Rightarrow>
   ParserConfiguration \<Rightarrow> call list \<Rightarrow> error + (ParserConfiguration \<times> ParseOptions \<times> call list)" where
  "register lt cf parser user this log =
     and_then (append lt cf this) (\<lambda>this1.
     and_then (js_call (init cf) [ThisConfiguration] log) (\<lambda>log1.
     (let parser1 = parser\<lparr> handlers := SubHandlers this1,
                             nodeCreators := nodeCreators parser ++ nodes cf,
                             itemClasses := itemClasses parser ++ items cf,
                             parser_options :=
                               userOptions (merge_defaults (parser_options parser) (options cf)) user \<rparr>
      in and_then (js_call (config cf) [ThisConfiguration, TheJax] log1) (\<lambda>log2.
         Inr (this1, parser1, log2)))))"

subsection \<open>The constructor\<close>

text \<open>An element of the \<open>packages\<close> argument: \<open>string | [string, number]\<close>.\<close>

datatype package = Package string | PackageAt string int

fun package_name :: "package \<Rightarrow> string" where
  "package_name (Package nm) = nm"
| "package_name (PackageAt nm prio) = nm"

fun package_priority :: "package \<Rightarrow> Configuration \<Rightarrow> int" where
  "package_priority (Package nm) conf = priority conf"
| "package_priority (PackageAt nm prio) conf = prio"

text \<open>
  The loop of the constructor: each name is looked up, and an entry that is found is
  added to \<open>this.configurations\<close>.
\<close>

fun add_packages :: "registry \<Rightarrow> package list \<Rightarrow> ParserConfiguration \<Rightarrow> ParserConfiguration" where
  "add_packages maps [] this = this"
| "add_packages maps (key # rest) this =
     (case ConfigurationHandler_get (package_name key) maps of
        None \<Rightarrow> add_packages maps rest this
      | Some conf \<Rightarrow> add_packages maps rest
          (this\<lparr> configurations :=
             PrioritizedList_add (<) conf (package_priority key conf) (configurations this) \<rparr>))"

definition ParserConfiguration_constructor :: "registry \<Rightarrow> package list \<Rightarrow> ParserConfiguration" where
  "ParserConfiguration_constructor maps packages = add_packages maps packages new_ParserConfiguration"

section \<open>Notions used to state the properties\<close>

text \<open>
  A parser configuration whose eight public fields have been assigned, with a list for
  each of the four handler categories: the state in which \<open>append\<close> does not throw.
\<close>

definition initialised :: "ParserConfiguration \<Rightarrow> bool" where
  "initialised this =
     ((case pc_handler this of
         None \<Rightarrow> False
       | Some h \<Rightarrow> list_all (\<lambda>k. h k \<noteq> None) [character, delimiter, macro, environment]) \<and>
      pc_fallback this \<noteq> None \<and> pc_items this \<noteq> None \<and> pc_tags this \<noteq> None \<and>
      pc_options this \<noteq> None \<and> pc_nodes this \<noteq> None \<and>
      pc_preprocessors this \<noteq> None \<and> pc_postprocessors this \<noteq> None)"

text \<open>What a caller reads off the outcome of \<open>append\<close>: nothing when it threw.\<close>

definition handler_list :: "HandlerType \<Rightarrow> error + ParserConfiguration \<Rightarrow> string list option" where
  "handler_list k r =
     (case r of
        Inl e \<Rightarrow> None
      | Inr this \<Rightarrow> (case pc_handler this of None \<Rightarrow> None | Some h \<Rightarrow> h k))"



definition init_chain :: "error + ParserConfiguration \<Rightarrow> FunctionList option" where
  "init_chain r = (case r of Inl e \<Rightarrow> None | Inr this \<Rightarrow> Some (initMethod this))"

definition ready_chain :: "error + ParserConfiguration \<Rightarrow> FunctionList option" where
  "ready_chain r = (case r of Inl e \<Rightarrow> None | Inr this \<Rightarrow> Some (configMethod this))"

text \<open>What the caller supplied for a handler category in the \<open>config\<close> argument.\<close>

definition supplied :: "ConfigParams \<Rightarrow> HandlerType \<Rightarrow> string list option" where
  "supplied c k = (case p_handler c of None \<Rightarrow> None | Some h \<Rightarrow> h k)"

text \<open>
  The entries that the names of a package list resolve to, each with the priority it is
  selected at, in the order of the list.
\<close>

fun found_entries :: "registry \<Rightarrow> package list \<Rightarrow> (Configuration \<times> int) list" where
  "found_entries maps [] = []"
| "found_entries maps (key # rest) =
     (case ConfigurationHandler_get (package_name key) maps of
        None \<Rightarrow> found_entries maps rest
      | Some conf \<Rightarrow> (conf, package_priority key conf) # found_entries maps rest)"

text \<open>Whether a package name is known to the registry.\<close>

definition known :: "registry \<Rightarrow> package \<Rightarrow> bool" where
  "known maps key = (ConfigurationHandler_get (package_name key) maps \<noteq> None)"

text \<open>
  Construction as section 4.5 of the specification words it (steps 1 to 3): the empty
  active configuration, into which the entries of the priority list are folded with the
  append step, in the order of the list.
\<close>

definition empty_ActiveConfiguration :: ParserConfiguration where
  "empty_ActiveConfiguration =
     \<lparr> initMethod = [], configMethod = [], configurations = [],
       pc_handler = Some [character \<mapsto> [], delimiter \<mapsto> [], macro \<mapsto> [], environment \<mapsto> []],
       pc_fallback = Some Map.empty, pc_items = Some Map.empty, pc_tags = Some Map.empty,
       pc_options = Some Map.empty, pc_nodes = Some Map.empty,
       pc_preprocessors = Some [], pc_postprocessors = Some [] \<rparr>"

fun fold_entries ::
  "(jsval \<Rightarrow> jsval \<Rightarrow> bool) \<Rightarrow> Configuration list \<Rightarrow> ParserConfiguration \<Rightarrow> error + ParserConfiguration" where
  "fold_entries lt [] this = Inr this"
| "fold_entries lt (cf # rest) this = and_then (append lt cf this) (fold_entries lt rest)"

definition spec_construction ::
  "(jsval \<Rightarrow> jsval \<Rightarrow> bool) \<Rightarrow> registry \<Rightarrow> package list \<Rightarrow> error + ParserConfiguration" where
  "spec_construction lt maps packages =
     fold_entries lt (map fst (sort_key snd (found_entries maps packages))) empty_ActiveConfiguration"

text \<open>
  The comparison of two priorities that are numbers, as the signature of
  \<open>FunctionList.add\<close> expects them. It instantiates the comparison in the examples, all of
  which add to an empty list, where nothing is compared.
\<close>

fun number_lt :: "jsval \<Rightarrow> jsval \<Rightarrow> bool" where
  "number_lt (Num a) (Num b) = (a < b)"
| "number_lt a b = False"

text \<open>
  The handler object after the loops of \<open>append\<close> have run over the categories \<open>ks\<close>: in
  each of them the entry's names stand in front of the list, the last name first.
\<close>

definition unshifted :: "HandlerType list \<Rightarrow> HandlerConfig \<Rightarrow> HandlerConfig \<Rightarrow> HandlerConfig" where
  "unshifted ks ch h =
     (\<lambda>k. if k \<in> set ks
          then (case ch k of None \<Rightarrow> h k | Some ms \<Rightarrow> map_option (\<lambda>xs. rev ms @ xs) (h k))
          else h k)"

text \<open>The items of a list added one after the other to a prioritized list.\<close>

fun insert_all :: "('a \<times> int) list \<Rightarrow> ('a, int) PrioritizedList \<Rightarrow> ('a, int) PrioritizedList" where
  "insert_all [] l = l"
| "insert_all ((c, p) # rest) l = insert_all rest (PrioritizedList_add (<) c p l)"

subsection \<open>Example inputs\<close>

text \<open>
  The entry \<open>Configuration.create('pkg', {handler: {macro: ['x', 'y']}, postprocessors: [p1],
  init: f, config: g})\<close> in an empty registry, and the registry after the call.
\<close>

definition example_params :: ConfigParams where
  "example_params = no_params\<lparr> p_handler := Some [macro \<mapsto> [''x'', ''y'']],
     p_postprocessors := Some [Fn ''p1''], p_init := Fn ''f'', p_config := Fn ''g'' \<rparr>"

definition example_entry :: Configuration where
  "example_entry = fst (Configuration_create ''pkg'' example_params Map.empty)"

definition example_registry :: registry where
  "example_registry = snd (Configuration_create ''pkg'' example_params Map.empty)"

text \<open>A second entry, \<open>Configuration.create('second', {postprocessors: [p2]})\<close>.\<close>

definition second_entry :: Configuration where
  "second_entry = fst (Configuration_create ''second''
     (no_params\<lparr> p_postprocessors := Some [Fn ''p2''] \<rparr>) Map.empty)"

text \<open>The registry after both calls, holding \<open>pkg\<close> and \<open>second\<close>.\<close>

definition two_registry :: registry where
  "two_registry = snd (Configuration_create ''second''
     (no_params\<lparr> p_postprocessors := Some [Fn ''p2''] \<rparr>) example_registry)"

text \<open>The entry of \<open>Configuration.empty()\<close>, which has no hook.\<close>

definition bare_entry :: Configuration where
  "bare_entry = fst (Configuration_create ''empty'' no_params Map.empty)"

text \<open>
  A parser configuration with all fields assigned, the macro list \<open>['previous']\<close> and the
  postprocessors \<open>[p0]\<close>; and the parse options of a jax.
\<close>

definition example_active :: ParserConfiguration where
  "example_active = empty_ActiveConfiguration\<lparr>
     pc_handler := Some [character \<mapsto> [], delimiter \<mapsto> [], macro \<mapsto> [''previous''],
                         environment \<mapsto> []],
     pc_postprocessors := Some [Fn ''p0''] \<rparr>"



definition example_parser :: ParseOptions where
  "example_parser = \<lparr> handlers = (None, None), nodeCreators = Map.empty,
     itemClasses = Map.empty, parser_options = Map.empty \<rparr>"

section \<open>Facts about the operations\<close>

lemmas example_defs = example_params_def example_entry_def example_registry_def
  second_entry_def bare_entry_def example_active_def example_parser_def no_params_def
  empty_ActiveConfiguration_def

subsection \<open>Entries made by \<open>create\<close>\<close>

lemma created_handler:
  "handler (fst (Configuration_create nm c maps)) k =
     Some (case supplied c k of None \<Rightarrow> [] | Some xs \<Rightarrow> xs)"
  by (cases k; cases "p_handler c")
     (auto simp: Configuration_create_def Configuration_constructor_def Object_assign_def
        supplied_def Let_def map_add_def split: option.splits)

lemma created_priority:
  "priority (fst (Configuration_create nm c maps)) = num_or (p_priority c) 5"
  by (simp add: Configuration_create_def Configuration_constructor_def Let_def)


lemma created_init:
  "init (fst (Configuration_create nm c maps)) =
     Arr [js_or (p_init c) Null, Num (num_or (p_priority c) 5)]"
  by (cases "p_init c")
     (simp_all add: Configuration_create_def Configuration_constructor_def Let_def js_or_def)

lemma created_config:
  "config (fst (Configuration_create nm c maps)) =
     Arr [js_or (p_config c) Null, Num (num_or (p_priority c) 5)]"
  by (cases "p_config c")
     (simp_all add: Configuration_create_def Configuration_constructor_def Let_def js_or_def)

lemma created_registered:
  "ConfigurationHandler_get nm (snd (Configuration_create nm c maps)) =
     Some (fst (Configuration_create nm c maps))"
  by (simp add: Configuration_create_def Let_def ConfigurationHandler_get_def
      ConfigurationHandler_set_def)

subsection \<open>The loops of \<open>append\<close>\<close>

lemma unshift_all_Some:
  "h k = Some xs \<Longrightarrow> unshift_all ms k (Some h) = Inr (Some (h(k \<mapsto> rev ms @ xs)))"
proof (induction ms arbitrary: h xs)
  case Nil
  then show ?case by (simp add: map_upd_triv)
next
  case (Cons m ms)
  have "(h(k \<mapsto> m # xs)) k = Some (m # xs)" by simp
  from Cons.IH [of "h(k \<mapsto> m # xs)" "m # xs", OF this]
  have ih: "unshift_all ms k (Some (h(k \<mapsto> m # xs))) = Inr (Some (h(k \<mapsto> rev ms @ m # xs)))"
    by (simp only: fun_upd_upd)
  have step: "unshift_all (m # ms) k (Some h) = unshift_all ms k (Some (h(k \<mapsto> m # xs)))"
    using Cons.prems by simp
  have r: "rev (m # ms) @ xs = rev ms @ m # xs" by simp
  show ?case by (simp only: step ih r)
qed

lemma append_handlers_Some:
  "distinct ks \<Longrightarrow> \<forall>k \<in> set ks. ch k \<noteq> None \<and> h k \<noteq> None \<Longrightarrow>
   append_handlers ks ch (Some h) = Inr (Some (unshifted ks ch h))"
proof (induction ks arbitrary: h)
  case Nil
  then show ?case by (simp add: unshifted_def)
next
  case (Cons k ks)
  from Cons.prems obtain ms xs where ms: "ch k = Some ms" and xs: "h k = Some xs" by auto
  let ?h = "h(k \<mapsto> rev ms @ xs)"
  have d: "distinct ks" using Cons.prems by simp
  have "\<forall>k' \<in> set ks. ch k' \<noteq> None \<and> ?h k' \<noteq> None" using Cons.prems by auto
  from Cons.IH [of ?h, OF d this]
  have "append_handlers ks ch (Some ?h) = Inr (Some (unshifted ks ch ?h))" .
  moreover have "unshifted ks ch ?h = unshifted (k # ks) ch h"
    using Cons.prems ms xs by (auto simp: unshifted_def fun_eq_iff)
  ultimately show ?case using ms xs by (simp add: unshift_all_Some)
qed

lemma Object_keys_props:
  "distinct (Object_keys ch)" "k \<in> set (Object_keys ch) \<longleftrightarrow> ch k \<noteq> None"
  by (cases k; auto simp: Object_keys_def)+

lemma unshifted_keys:
  "unshifted (Object_keys ch) ch h k =
     (case ch k of None \<Rightarrow> h k | Some ms \<Rightarrow> map_option (\<lambda>xs. rev ms @ xs) (h k))"
  by (auto simp: unshifted_def Object_keys_props split: option.splits)


lemma push_all_Some: "push_all xs (Some ys) = Inr (Some (ys @ xs))"
  by (induction xs arbitrary: ys) simp_all

lemma add_hook_total:
  "add_hook lt hook i j fl =
     Inr (if truthy hook
          then PrioritizedList_add lt (case js_index hook i of Inr v \<Rightarrow> v | Inl e \<Rightarrow> Undefined)
                 (case js_index hook j of Inr v \<Rightarrow> v | Inl e \<Rightarrow> Undefined) fl
          else fl)"
  by (cases hook) (simp_all add: add_hook_def)

subsection \<open>\<open>append\<close> on an initialised configuration\<close>

lemma initialised_handler:
  assumes "initialised this"
  shows "\<exists>h. pc_handler this = Some h \<and> (\<forall>k. h k \<noteq> None)"
proof -
  from assms obtain h where h: "pc_handler this = Some h"
    by (auto simp: initialised_def split: option.splits)
  with assms have "h character \<noteq> None" "h delimiter \<noteq> None" "h macro \<noteq> None"
    "h environment \<noteq> None"
    by (simp_all add: initialised_def)
  then have "\<forall>k. h k \<noteq> None" by (metis HandlerType.exhaust)
  with h show ?thesis by blast
qed

lemma append_initialised:
  assumes "initialised this"
  shows "\<exists>this' h fb its tgs opts nds pre post.
     pc_handler this = Some h \<and> pc_fallback this = Some fb \<and> pc_items this = Some its \<and>
     pc_tags this = Some tgs \<and> pc_options this = Some opts \<and> pc_nodes this = Some nds \<and>
     pc_preprocessors this = Some pre \<and> pc_postprocessors this = Some post \<and>
     append lt cf this = Inr this' \<and>
     pc_handler this' = Some (unshifted (Object_keys (handler cf)) (handler cf) h) \<and>
     pc_fallback this' = Some (Object_assign fb (fallback cf)) \<and>
     pc_items this' = Some (Object_assign its (items cf)) \<and>
     pc_tags this' = Some (Object_assign tgs (tags cf)) \<and>
     pc_options this' = Some (merge_defaults opts (options cf)) \<and>
     pc_nodes this' = Some (Object_assign nds (nodes cf)) \<and>
     pc_preprocessors this' = Some (pre @ preprocessors cf) \<and>
     pc_postprocessors this' = Some (post @ postprocessors cf) \<and>
     configurations this' = configurations this \<and>
     add_hook lt (init cf) 0 0 (initMethod this) = Inr (initMethod this') \<and>
     add_hook lt (config cf) 0 1 (configMethod this) = Inr (configMethod this')"
proof -
  from initialised_handler [OF assms] obtain h where
    h: "pc_handler this = Some h" "\<forall>k. h k \<noteq> None"
    by blast
  from assms obtain fb its tgs opts nds pre post where f:
    "pc_fallback this = Some fb" "pc_items this = Some its" "pc_tags this = Some tgs"
    "pc_options this = Some opts" "pc_nodes this = Some nds"
    "pc_preprocessors this = Some pre" "pc_postprocessors this = Some post"
    by (auto simp: initialised_def)
  have ah: "append_handlers (Object_keys (handler cf)) (handler cf) (Some h) =
      Inr (Some (unshifted (Object_keys (handler cf)) (handler cf) h))"
    using h by (intro append_handlers_Some) (simp_all add: Object_keys_props)
  obtain im where im: "add_hook lt (init cf) 0 0 (initMethod this) = Inr im"
    using add_hook_total by blast
  obtain cm where cm: "add_hook lt (config cf) 0 1 (configMethod this) = Inr cm"
    using add_hook_total by blast
  show ?thesis
    using h f ah im cm by (simp add: append_def push_all_Some)
qed


lemma append_handler_list:
  assumes "initialised this" and "handler_list k (Inr this) = Some previous"
    and "handler cf k = Some contributed"
  shows "handler_list k (append lt cf this) = Some (rev contributed @ previous)"
proof -
  from append_initialised [OF assms(1), of lt cf] obtain this' h where
    a: "pc_handler this = Some h" "append lt cf this = Inr this'"
       "pc_handler this' = Some (unshifted (Object_keys (handler cf)) (handler cf) h)"
    by blast
  from assms(2) a(1) have "h k = Some previous" by (simp add: handler_list_def)
  with a assms(3) show ?thesis by (simp add: handler_list_def unshifted_keys)
qed

subsection \<open>The prioritized list of the constructor\<close>

lemma add_packages_insert_all:
  "add_packages maps pkgs this =
     this\<lparr>configurations := insert_all (found_entries maps pkgs) (configurations this)\<rparr>"
  by (induction pkgs arbitrary: this) (simp_all split: option.splits)

lemma add_mset_PL: "mset (PrioritizedList_add (<) c p l) = add_mset (c, p) (mset l)"
  by (induction l) auto

lemma add_set_PL: "set (PrioritizedList_add (<) c p l) = insert (c, p) (set l)"
  by (induction l) (auto split: if_splits)

lemma add_sorted_PL:
  "sorted (map snd l) \<Longrightarrow> sorted (map snd (PrioritizedList_add (<) c (p::int) l))"
  by (induction l) (fastforce simp: add_set_PL)+

lemma add_filter_PL:
  "sorted (map snd l) \<Longrightarrow>
   filter (\<lambda>x. k = snd x) (PrioritizedList_add (<) c (p::int) l) =
     filter (\<lambda>x. k = snd x) l @ (if k = p then [(c, p)] else [])"
proof (induction l)
  case Nil
  then show ?case by simp
next
  case (Cons a l)
  obtain b q where a: "a = (b, q)" by (cases a)
  show ?case
  proof (cases "p < q")
    case True
    with Cons.prems a have "\<forall>x \<in> set l. p < snd x" by auto
    then have "filter (\<lambda>x. p = snd x) l = []" by (auto simp: filter_empty_conv)
    with True a show ?thesis by auto
  next
    case False
    with Cons a show ?thesis by auto
  qed
qed

lemma insert_all_snoc:
  "insert_all (xs @ [(c, p)]) l = PrioritizedList_add (<) c p (insert_all xs l)"
  by (induction xs l rule: insert_all.induct) simp_all

lemma insert_all_props:
  "mset (insert_all xs []) = mset xs \<and> sorted (map snd (insert_all xs [])) \<and>
   (\<forall>k. filter (\<lambda>x. k = snd x) (insert_all xs []) = filter (\<lambda>x. k = snd x) xs)"
proof (induction xs rule: rev_induct)
  case Nil
  then show ?case by simp
next
  case (snoc x xs)
  obtain c p where x: "x = (c, p)" by (cases x)
  from snoc show ?case
    unfolding x insert_all_snoc by (simp add: add_mset_PL add_sorted_PL add_filter_PL)
qed

lemma insert_all_sort_key: "insert_all xs [] = sort_key snd xs"
  using insert_all_props [of xs]
  by (intro properties_for_sort_key [symmetric]) auto

lemma constructor_sort_key:
  "ParserConfiguration_constructor maps pkgs =
     new_ParserConfiguration\<lparr>configurations := sort_key snd (found_entries maps pkgs)\<rparr>"
  by (simp add: ParserConfiguration_constructor_def add_packages_insert_all insert_all_sort_key
      new_ParserConfiguration_def)

lemma found_entries_filter:
  "found_entries maps (filter (known maps) pkgs) = found_entries maps pkgs"
  by (induction pkgs) (auto simp: known_def split: option.splits)

subsection \<open>\<open>append\<close> on a configuration with an unassigned field\<close>

lemma append_unassigned_throws:
  assumes "pc_fallback this = None"
  shows "append lt cf this = Inl TypeError"
proof (cases "append_handlers (Object_keys (handler cf)) (handler cf) (pc_handler this)")
  case (Inl e)
  then show ?thesis by (cases e) (simp add: append_def)
next
  case (Inr h)
  with assms show ?thesis by (simp add: append_def)
qed

lemma append_on_constructed_throws:
  "append lt cf (ParserConfiguration_constructor maps pkgs) = Inl TypeError"
  by (rule append_unassigned_throws) (simp add: constructor_sort_key new_ParserConfiguration_def)

subsection \<open>The example inputs\<close>

lemma created_entry_any_registry:
  "fst (Configuration_create nm c maps) = fst (Configuration_create nm c maps')"
  by (simp add: Configuration_create_def Let_def)

lemma two_found:
  "found_entries two_registry [PackageAt ''pkg'' 10, Package ''unknown'', Package ''second''] =
     [(example_entry, 10), (second_entry, 5)]"
proof -
  have s: "ConfigurationHandler_get ''second'' two_registry = Some second_entry"
    unfolding two_registry_def second_entry_def
    by (simp only: created_registered created_entry_any_registry [of _ _ example_registry Map.empty])
  have p: "ConfigurationHandler_get ''pkg'' two_registry = Some example_entry"
    by (simp add: two_registry_def example_registry_def example_entry_def Configuration_create_def
        Let_def ConfigurationHandler_get_def ConfigurationHandler_set_def)
  have u: "ConfigurationHandler_get ''unknown'' two_registry = None"
    by (simp add: two_registry_def example_registry_def Configuration_create_def
        Let_def ConfigurationHandler_get_def ConfigurationHandler_set_def)
  have "priority second_entry = 5"
    by (simp add: second_entry_def created_priority no_params_def)
  with s p u show ?thesis by simp
qed

lemma example_initialised: "initialised example_active"
  by (simp add: example_defs initialised_def)

lemma empty_initialised: "initialised empty_ActiveConfiguration"
  by (simp add: empty_ActiveConfiguration_def initialised_def)

lemma example_handler: "handler example_entry macro = Some [''x'', ''y'']"
  by (simp add: example_entry_def created_handler supplied_def example_params_def no_params_def)

lemma example_previous: "handler_list macro (Inr example_active) = Some [''previous'']"
  by (simp add: example_defs handler_list_def)

lemma example_found: "found_entries example_registry [Package ''pkg''] = [(example_entry, 5)]"
  by (simp add: example_registry_def example_entry_def created_registered created_priority
      example_params_def no_params_def)

section \<open>The properties\<close>

subsection \<open>Handler lists\<close>

text \<open>
  Claim C1, which the code does not meet: what \<open>append\<close> does with the names an entry
  contributes to a handler category. On an initialised configuration whose list for the
  category is \<open>previous\<close>, \<open>append\<close> returns and the list becomes the contributed names in
  reverse order followed by \<open>previous\<close>: each \<open>unshift\<close> of the forward loop puts a name in
  front of the names contributed before it, so the order among the entry's own names is
  not preserved.
\<close>

theorem append_prepends_in_reverse:
  assumes "initialised this" and "handler_list k (Inr this) = Some previous"
    and "handler cf k = Some contributed"
  shows "handler_list k (append lt cf this) = Some (rev contributed @ previous)"
  using assms by (rule append_handler_list)

theorem append_prepends_in_reverse_witness:
  "initialised example_active \<and> handler_list macro (Inr example_active) = Some [''previous''] \<and>
   handler example_entry macro = Some [''x'', ''y''] \<and>
   handler_list macro (append number_lt example_entry example_active) =
     Some [''y'', ''x'', ''previous''] \<and>
   handler_list macro (append number_lt example_entry example_active) \<noteq>
     Some [''x'', ''y'', ''previous'']"
proof -
  from append_prepends_in_reverse
    [OF example_initialised example_previous example_handler, of number_lt]
  have "handler_list macro (append number_lt example_entry example_active) =
      Some [''y'', ''x'', ''previous'']"
    by simp
  with example_initialised example_previous example_handler show ?thesis by simp
qed

subsection \<open>Construction of a parser configuration\<close>

text \<open>
  Claim C2, which the code does not meet: what the constructor does. It looks up each
  package name and puts the entries it finds into the prioritized list \<open>configurations\<close>,
  each at its explicit priority or else at the entry's default priority, in ascending
  order of priority and in the order of the package list among equal priorities. It stops
  there: no entry is merged and no hook is run, both hook lists are empty and the handler
  lists, the four maps, the options and the two processor lists are unassigned.
\<close>

theorem constructor_only_collects:
  "configurations (ParserConfiguration_constructor maps pkgs) =
     sort_key snd (found_entries maps pkgs) \<and>
   initMethod (ParserConfiguration_constructor maps pkgs) = [] \<and>
   configMethod (ParserConfiguration_constructor maps pkgs) = [] \<and>
   pc_handler (ParserConfiguration_constructor maps pkgs) = None \<and>
   pc_fallback (ParserConfiguration_constructor maps pkgs) = None \<and>
   pc_items (ParserConfiguration_constructor maps pkgs) = None \<and>
   pc_tags (ParserConfiguration_constructor maps pkgs) = None \<and>
   pc_options (ParserConfiguration_constructor maps pkgs) = None \<and>
   pc_nodes (ParserConfiguration_constructor maps pkgs) = None \<and>
   pc_preprocessors (ParserConfiguration_constructor maps pkgs) = None \<and>
   pc_postprocessors (ParserConfiguration_constructor maps pkgs) = None"
  by (simp add: constructor_sort_key new_ParserConfiguration_def)

theorem constructor_only_collects_witness:
  "configurations (ParserConfiguration_constructor two_registry
      [PackageAt ''pkg'' 10, Package ''unknown'', Package ''second'']) =
     [(second_entry, 5), (example_entry, 10)] \<and>
   initMethod (ParserConfiguration_constructor two_registry
      [PackageAt ''pkg'' 10, Package ''unknown'', Package ''second'']) = [] \<and>
   configMethod (ParserConfiguration_constructor two_registry
      [PackageAt ''pkg'' 10, Package ''unknown'', Package ''second'']) = [] \<and>
   pc_handler (ParserConfiguration_constructor two_registry
      [PackageAt ''pkg'' 10, Package ''unknown'', Package ''second'']) = None \<and>
   pc_postprocessors (ParserConfiguration_constructor two_registry
      [PackageAt ''pkg'' 10, Package ''unknown'', Package ''second'']) = None"
proof -
  have "sort_key snd [(example_entry, 10::int), (second_entry, 5)] =
      [(second_entry, 5), (example_entry, 10)]"
    by simp
  with constructor_only_collects
    [of two_registry "[PackageAt ''pkg'' 10, Package ''unknown'', Package ''second'']"]
  show ?thesis by (simp only: two_found)
qed

text \<open>
  The outcome differs from the construction that section 4.5 of the specification
  describes. With the registry holding the entry \<open>pkg\<close> (macro names \<open>[x, y]\<close>, init hook
  \<open>f\<close>), folding the found entries into the empty active configuration gives a macro list
  and an init chain holding the hook, whereas the constructed configuration has no handler
  lists at all and an empty init chain; and \<open>append\<close> throws on it, whatever the entry.
\<close>

theorem constructor_differs_from_spec_construction:
  "handler_list macro (spec_construction number_lt example_registry [Package ''pkg'']) =
     Some [''y'', ''x''] \<and>
   init_chain (spec_construction number_lt example_registry [Package ''pkg'']) =
     Some [(Fn ''f'', Fn ''f'')] \<and>
   pc_handler (ParserConfiguration_constructor example_registry [Package ''pkg'']) = None \<and>
   initMethod (ParserConfiguration_constructor example_registry [Package ''pkg'']) = [] \<and>
   append number_lt example_entry
     (ParserConfiguration_constructor example_registry [Package ''pkg'']) = Inl TypeError"
proof -
  have "spec_construction number_lt example_registry [Package ''pkg''] =
     fold_entries number_lt [example_entry] empty_ActiveConfiguration"
    by (simp only: spec_construction_def example_found) simp
  then have eq: "spec_construction number_lt example_registry [Package ''pkg''] =
     append number_lt example_entry empty_ActiveConfiguration"
    by (cases "append number_lt example_entry empty_ActiveConfiguration") simp_all
  have "handler_list macro (Inr empty_ActiveConfiguration) = Some []"
    by (simp add: handler_list_def empty_ActiveConfiguration_def)
  from append_handler_list [OF empty_initialised this example_handler, of number_lt]
  have h: "handler_list macro (append number_lt example_entry empty_ActiveConfiguration) =
      Some [''y'', ''x'']"
    by simp
  from append_initialised [OF empty_initialised, of number_lt example_entry]
  obtain this' where a: "append number_lt example_entry empty_ActiveConfiguration = Inr this'"
    "add_hook number_lt (init example_entry) 0 0 (initMethod empty_ActiveConfiguration) =
       Inr (initMethod this')"
    by blast
  from a(2) have "initMethod this' = [(Fn ''f'', Fn ''f'')]"
    by (simp add: example_entry_def created_init add_hook_def js_or_def example_params_def
        no_params_def empty_ActiveConfiguration_def)
  with a(1) have i: "init_chain (append number_lt example_entry empty_ActiveConfiguration) =
      Some [(Fn ''f'', Fn ''f'')]"
    by (simp add: init_chain_def)
  have c: "pc_handler (ParserConfiguration_constructor example_registry [Package ''pkg'']) = None"
    "initMethod (ParserConfiguration_constructor example_registry [Package ''pkg'']) = []"
    by (simp_all add: constructor_sort_key new_ParserConfiguration_def)
  have t: "append number_lt example_entry
     (ParserConfiguration_constructor example_registry [Package ''pkg'']) = Inl TypeError"
    by (rule append_on_constructed_throws)
  have h': "handler_list macro (spec_construction number_lt example_registry [Package ''pkg'']) =
     Some [''y'', ''x'']"
    and i': "init_chain (spec_construction number_lt example_registry [Package ''pkg'']) =
     Some [(Fn ''f'', Fn ''f'')]"
    by (simp_all only: eq h i)
  show ?thesis by (intro conjI h' i' c t)
qed

text \<open>
  Claim C8. Package names that the registry does not know are skipped: constructing from
  a package list gives the same parser configuration as constructing from the list with
  the unknown names removed. The constructor has no failing path.
\<close>

theorem constructor_skips_unknown:
  "ParserConfiguration_constructor maps pkgs =
     ParserConfiguration_constructor maps (filter (known maps) pkgs)"
  by (simp add: constructor_sort_key found_entries_filter)

theorem constructor_skips_unknown_witness:
  "ParserConfiguration_constructor example_registry [Package ''unknown'', Package ''pkg''] =
     ParserConfiguration_constructor example_registry [Package ''pkg'']"
proof -
  have "filter (known example_registry) [Package ''unknown'', Package ''pkg''] = [Package ''pkg'']"
    by (simp add: known_def example_registry_def Configuration_create_def Let_def
        ConfigurationHandler_get_def ConfigurationHandler_set_def)
  with constructor_skips_unknown [of example_registry "[Package ''unknown'', Package ''pkg'']"]
  show ?thesis by (simp only:)
qed

subsection \<open>Dynamic registration\<close>

text \<open>
  Claim C3, which the code does not meet: what \<open>register\<close> does with an entry made by
  \<open>Configuration.create\<close>. The constructor has replaced the entry's \<open>init\<close> by the pair of
  the hook and the priority, so the call \<open>config.init(this)\<close> that follows \<open>append\<close> calls
  an array: \<open>register\<close> throws a \<open>TypeError\<close> for every such entry, every parser
  configuration and every jax, before the handlers are rebuilt and before the ready hook
  is reached.
\<close>

theorem register_created_entry_throws:
  "register lt (fst (Configuration_create nm c maps)) parser user this log = Inl TypeError"
proof (cases "append lt (fst (Configuration_create nm c maps)) this")
  case (Inl e)
  then show ?thesis by (cases e) (simp add: register_def)
next
  case (Inr this1)
  then show ?thesis by (simp add: register_def created_init)
qed

theorem register_created_entry_throws_witness:
  "register number_lt example_entry example_parser Map.empty example_active [] = Inl TypeError"
  unfolding example_entry_def by (rule register_created_entry_throws)

subsection \<open>Hooks\<close>

text \<open>
  Claim C4, which the code does not meet: what \<open>append\<close> adds to the two hook lists for
  an entry made by \<open>Configuration.create\<close> with the hooks \<open>init\<close> and \<open>config\<close> (\<open>null\<close>
  when absent). The init list always receives the hook value as item and the same hook
  value as its priority; the config list always receives the hook value at the entry's
  default priority. Both happen also when the hook is absent, and a hook given as a pair
  is added as the whole pair.
\<close>

theorem append_hooks_of_created_entry:
  assumes "initialised this"
  shows "init_chain (append lt (fst (Configuration_create nm c maps)) this) =
           Some (PrioritizedList_add lt (js_or (p_init c) Null) (js_or (p_init c) Null)
                  (initMethod this)) \<and>
         ready_chain (append lt (fst (Configuration_create nm c maps)) this) =
           Some (PrioritizedList_add lt (js_or (p_config c) Null)
                  (Num (num_or (p_priority c) 5)) (configMethod this))"
proof -
  let ?e = "fst (Configuration_create nm c maps)"
  from append_initialised [OF assms, of lt ?e] obtain this' where
    a: "append lt ?e this = Inr this'"
       "add_hook lt (init ?e) 0 0 (initMethod this) = Inr (initMethod this')"
       "add_hook lt (config ?e) 0 1 (configMethod this) = Inr (configMethod this')"
    by blast
  from a(2,3) have
    "initMethod this' =
       PrioritizedList_add lt (js_or (p_init c) Null) (js_or (p_init c) Null) (initMethod this)"
    "configMethod this' =
       PrioritizedList_add lt (js_or (p_config c) Null) (Num (num_or (p_priority c) 5))
         (configMethod this)"
    by (simp_all add: created_init created_config add_hook_def)
  with a(1) show ?thesis by (simp add: init_chain_def ready_chain_def)
qed

theorem append_hooks_of_created_entry_witness:
  "initialised example_active \<and>
   init_chain (append number_lt example_entry example_active) = Some [(Fn ''f'', Fn ''f'')] \<and>
   ready_chain (append number_lt example_entry example_active) = Some [(Fn ''g'', Num 5)] \<and>
   init_chain (append number_lt bare_entry example_active) = Some [(Null, Null)] \<and>
   ready_chain (append number_lt bare_entry example_active) = Some [(Null, Num 5)]"
  using append_hooks_of_created_entry
      [OF example_initialised, of number_lt "''pkg''" example_params Map.empty]
    append_hooks_of_created_entry
      [OF example_initialised, of number_lt "''empty''" no_params Map.empty]
    example_initialised
  by (simp add: example_defs js_or_def)

subsection \<open>Creating and registering entries\<close>

text \<open>
  Claim C5, as the code has it. \<open>Configuration.create\<close> performs no structural
  validation: for every name and every description object, whatever its hooks are, it
  produces an entry of that name and registers it under the name instead of failing.
\<close>

theorem create_accepts_any_description:
  "name (fst (Configuration_create nm c maps)) = nm \<and>
   ConfigurationHandler_get nm (snd (Configuration_create nm c maps)) =
     Some (fst (Configuration_create nm c maps))"
  by (simp add: created_registered) (simp add: Configuration_create_def
      Configuration_constructor_def Let_def)

theorem create_accepts_any_description_witness:
  "name (fst (Configuration_create ''bad'' (no_params\<lparr>p_config := Arr [Null, Num 3]\<rparr>)
      example_registry)) = ''bad'' \<and>
   ConfigurationHandler_get ''bad''
     (snd (Configuration_create ''bad'' (no_params\<lparr>p_config := Arr [Null, Num 3]\<rparr>)
        example_registry)) =
     Some (fst (Configuration_create ''bad'' (no_params\<lparr>p_config := Arr [Null, Num 3]\<rparr>)
        example_registry))"
  by (rule create_accepts_any_description)

text \<open>
  Claim C5 as stated fails: a description whose init hook is the pair \<open>[null, 3]\<close>, a hook
  without a callable, is turned into an entry and registered like any other.
\<close>

theorem create_rejects_malformed_counterexample:
  "init (fst (Configuration_create ''bad'' (no_params\<lparr>p_init := Arr [Null, Num 3]\<rparr>) Map.empty)) =
     Arr [Arr [Null, Num 3], Num 5] \<and>
   ConfigurationHandler_get ''bad''
     (snd (Configuration_create ''bad'' (no_params\<lparr>p_init := Arr [Null, Num 3]\<rparr>) Map.empty)) \<noteq> None"
  by (simp add: created_init created_registered js_or_def no_params_def)

text \<open>
  Claim C6. In every entry made by \<open>Configuration.create\<close> each of the four handler
  categories is present: bound to the empty list when the caller did not supply it, and to
  the caller's list otherwise.
\<close>

theorem create_all_categories:
  "handler (fst (Configuration_create nm c maps)) k \<noteq> None \<and>
   (supplied c k = None \<longrightarrow> handler (fst (Configuration_create nm c maps)) k = Some []) \<and>
   (\<forall>xs. supplied c k = Some xs \<longrightarrow> handler (fst (Configuration_create nm c maps)) k = Some xs)"
  by (simp add: created_handler)

theorem create_all_categories_witness:
  "supplied example_params delimiter = None \<and> supplied example_params macro = Some [''x'', ''y''] \<and>
   handler (fst (Configuration_create ''pkg'' example_params Map.empty)) delimiter = Some [] \<and>
   handler (fst (Configuration_create ''pkg'' example_params Map.empty)) macro = Some [''x'', ''y'']"
proof -
  have d: "supplied example_params delimiter = None"
    and m: "supplied example_params macro = Some [''x'', ''y'']"
    by (simp_all add: supplied_def example_params_def no_params_def)
  from create_all_categories [of "''pkg''" example_params Map.empty delimiter]
    create_all_categories [of "''pkg''" example_params Map.empty macro] d m
  show ?thesis by blast
qed

text \<open>
  Claim C9, as the code has it. Registration validates nothing: an entry is accepted under
  every name, the empty name included; afterwards the name resolves to that entry, whatever
  was registered under it before, and every other name resolves as before.
\<close>

theorem registry_set_overwrites:
  "ConfigurationHandler_get nm (ConfigurationHandler_set nm e maps) = Some e \<and>
   (nm' \<noteq> nm \<longrightarrow>
      ConfigurationHandler_get nm' (ConfigurationHandler_set nm e maps) =
        ConfigurationHandler_get nm' maps)"
  by (simp add: ConfigurationHandler_get_def ConfigurationHandler_set_def)

theorem registry_set_overwrites_witness:
  "''pkg'' \<noteq> ''empty'' \<and>
   ConfigurationHandler_get ''empty'' (ConfigurationHandler_set ''empty'' bare_entry example_registry) =
     Some bare_entry \<and>
   ConfigurationHandler_get ''pkg'' (ConfigurationHandler_set ''empty'' bare_entry example_registry) =
     ConfigurationHandler_get ''pkg'' example_registry"
proof -
  have n: "''pkg'' \<noteq> ''empty''" by simp
  from registry_set_overwrites [of "''empty''" bare_entry example_registry "''pkg''"] n
  show ?thesis by blast
qed

text \<open>
  Claim C9 as stated fails: registering under the empty name is not refused; the entry is
  stored and the empty name resolves to it.
\<close>

theorem registry_refuses_empty_name_counterexample:
  "ConfigurationHandler_get [] (ConfigurationHandler_set [] bare_entry Map.empty) = Some bare_entry"
  by (simp add: ConfigurationHandler_get_def ConfigurationHandler_set_def)

text \<open>
  Claim C10. When the priority given to \<open>Configuration.create\<close> is absent or \<open>0\<close>, the
  entry's default priority is \<open>5\<close>; and no entry made by \<open>create\<close> has the default
  priority \<open>0\<close>.
\<close>

theorem create_falsy_priority:
  "((p_priority c = None \<or> p_priority c = Some 0) \<longrightarrow>
      priority (fst (Configuration_create nm c maps)) = 5) \<and>
   priority (fst (Configuration_create nm c maps)) \<noteq> 0"
  by (cases "p_priority c") (auto simp: created_priority)

theorem create_falsy_priority_witness:
  "(p_priority (no_params\<lparr>p_priority := Some 0\<rparr>) = None \<or>
    p_priority (no_params\<lparr>p_priority := Some 0\<rparr>) = Some 0) \<and>
   priority (fst (Configuration_create ''pkg'' (no_params\<lparr>p_priority := Some 0\<rparr>) Map.empty)) = 5 \<and>
   priority (fst (Configuration_create ''pkg'' (no_params\<lparr>p_priority := Some 0\<rparr>) Map.empty)) \<noteq> 0"
proof -
  have h: "p_priority (no_params\<lparr>p_priority := Some 0\<rparr>) = None \<or>
    p_priority (no_params\<lparr>p_priority := Some 0\<rparr>) = Some 0"
    by simp
  from create_falsy_priority [of "no_params\<lparr>p_priority := Some 0\<rparr>" "''pkg''" Map.empty] h
  show ?thesis by blast
qed

subsection \<open>Processors\<close>




end
